theory Spec2Isabelle
  imports Complex_Main "HOL-Library.Multiset"
begin

section \<open>Decoded JSON values\<close>

text \<open>
  A \<open>float64\<close> of Go, as far as the matching engine observes it: the engine only compares
  floats with \<open>==\<close>, which does not tell \<open>+0\<close> from \<open>-0\<close>, so a finite float is its
  real value. \<open>NaN\<close> and the two infinities are kept: the type has them, although the
  JSON decoder never produces them.
\<close>

datatype float64 = Finite real | PInf | NInf | NaN

text \<open>Go's \<open>==\<close> on \<open>float64\<close>: a NaN is equal to nothing, itself included.\<close>

definition f64_eq :: "float64 \<Rightarrow> float64 \<Rightarrow> bool" where
  "f64_eq x y = (x \<noteq> NaN \<and> x = y)"

text \<open>Go's \<open><\<close> and \<open><=\<close> on \<open>float64\<close>: every comparison with a NaN is false.\<close>

fun f64_less :: "float64 \<Rightarrow> float64 \<Rightarrow> bool" where
  "f64_less NaN y = False"
| "f64_less x NaN = False"
| "f64_less PInf y = False"
| "f64_less x NInf = False"
| "f64_less NInf y = True"
| "f64_less x PInf = True"
| "f64_less (Finite x) (Finite y) = (x < y)"

definition f64_le :: "float64 \<Rightarrow> float64 \<Rightarrow> bool" where
  "f64_le x y = (f64_less x y \<or> f64_eq x y)"

text \<open>\<open>math.Abs\<close> and \<open>math.Trunc\<close>, both exact.\<close>

fun f64_abs :: "float64 \<Rightarrow> float64" where
  "f64_abs (Finite x) = Finite \<bar>x\<bar>"
| "f64_abs PInf = PInf"
| "f64_abs NInf = PInf"
| "f64_abs NaN = NaN"

fun Trunc :: "float64 \<Rightarrow> float64" where
  "Trunc (Finite x) = Finite (of_int (if 0 \<le> x then \<lfloor>x\<rfloor> else \<lceil>x\<rceil>))"
| "Trunc x = x"

text \<open>
  What \<open>json.Unmarshal\<close> stores into an \<open>interface{}\<close>: \<open>nil\<close>, \<open>bool\<close>, \<open>float64\<close>,
  \<open>string\<close>, \<open>[]interface{}\<close> or \<open>map[string]interface{}\<close>. A map is an association
  list with distinct keys; the order of the list is the order in which \<open>range\<close>
  happens to visit the map.
\<close>

datatype jvalue =
    JNull
  | JBool bool
  | JNum float64
  | JStr string
  | JArr "jvalue list"
  | JObj "(string \<times> jvalue) list"

text \<open>The dynamic type of a decoded value, as \<open>%T\<close> prints it.\<close>

datatype go_type = TNil | TBool | TFloat64 | TString | TSlice | TMap

fun type_of :: "jvalue \<Rightarrow> go_type" where
  "type_of JNull = TNil"
| "type_of (JBool b) = TBool"
| "type_of (JNum f) = TFloat64"
| "type_of (JStr s) = TString"
| "type_of (JArr xs) = TSlice"
| "type_of (JObj kvs) = TMap"

section \<open>Expectations\<close>

text \<open>
  The scalar Go values a caller passes as a literal expectation. An integer carries its
  \<open>reflect.Kind\<close>; \<open>val.Int()\<close> reads a signed one as an \<open>int64\<close>. Containers are
  expected through the matchers \<open>Object\<close>, \<open>StrictObject\<close>, \<open>Array\<close> and
  \<open>UnorderedArray\<close>; a raw Go map or slice as a literal is outside this model.
\<close>

datatype int_kind = KInt | KInt8 | KInt16 | KInt32 | KInt64

datatype uint_kind = KUint | KUint8 | KUint16 | KUint32 | KUint64 | KUintptr

datatype literal =
    LNil
  | LBool bool
  | LString string
  | LInt int_kind int
  | LUint uint_kind nat
  | LFloat64 float64

text \<open>
  Errors of validators and parsers, which \<open>stringValue\<close> and \<open>timeValue\<close> wrap with
  \<open>"at %s: %w"\<close>. An error of a library (\<open>regexp.Compile\<close>, \<open>time.Parse\<close>) is its message.
\<close>

type_synonym Time = int

datatype verror =
    InvalidRegexp string string
      \<comment> \<open>\<open>"invalid regexp pattern %q: %w"\<close>: pattern, error of \<open>regexp.Compile\<close>\<close>
  | NoRegexpMatch string string
      \<comment> \<open>\<open>"expected to match %q, got %q"\<close>: pattern, s\<close>
  | NotOneOf "string list" string
      \<comment> \<open>\<open>"expected one of %v, got %q"\<close>: options, s\<close>
  | TimeNotInRange Time Time Time
      \<comment> \<open>\<open>"expected time between %v and %v, got %v"\<close>: startTime, endTime, parsed\<close>
  | LibraryError string
      \<comment> \<open>an error returned by a library parser or by a caller's format check\<close>

text \<open>
  The errors of the matching engine, one constructor for each \<open>fmt.Errorf\<close> of the
  source, holding the arguments of the format: a constructor has a path exactly when
  the format of the source starts with \<open>"at %s"\<close>. \<open>'x\<close> is the type of an expectation.
\<close>

datatype 'x merror =
    ErrBody
      \<comment> \<open>\<open>"body must be string or []byte, got %T"\<close>\<close>
  | ErrInvalidJson string
      \<comment> \<open>\<open>"invalid json: %w"\<close>: the error of \<open>json.Unmarshal\<close>\<close>
  | ErrMismatch string literal jvalue
      \<comment> \<open>\<open>"at %s: expected %v (%T), got %v (%T)"\<close>: path, expected, actual\<close>
  | ErrExpectedString string go_type
      \<comment> \<open>\<open>"at %s: expected string, got %T"\<close>\<close>
  | ErrExpectedTimeString string go_type
      \<comment> \<open>\<open>"at %s: expected time string, got %T"\<close>\<close>
  | ErrAt string verror
      \<comment> \<open>\<open>"at %s: %w"\<close>\<close>
  | ErrExpectedObject string go_type
      \<comment> \<open>\<open>"at %s: expected object, got %T"\<close>\<close>
  | ErrMissingKey string string
      \<comment> \<open>\<open>"at %s: missing key %q"\<close>\<close>
  | ErrUnexpectedKey string string
      \<comment> \<open>\<open>"at %s: unexpected key %q"\<close>\<close>
  | ErrExpectedArray string go_type
      \<comment> \<open>\<open>"at %s: expected array, got %T"\<close>\<close>
  | ErrArrayLength string nat nat
      \<comment> \<open>\<open>"at %s: expected array length %d, got %d"\<close>: path, len(elements), len(arr)\<close>
  | ErrNotFound string 'x nat
      \<comment> \<open>\<open>"at %s: expected element %v (index %d) not found in remaining actual elements"\<close>\<close>
  | ErrExpectedNull string jvalue
      \<comment> \<open>\<open>"at %s: expected null, got %v"\<close>\<close>
  | ErrExpectedBoolean string go_type
      \<comment> \<open>\<open>"at %s: expected boolean, got %T"\<close>\<close>
  | ErrExpectedNumber string go_type
      \<comment> \<open>\<open>"at %s: expected number, got %T"\<close>\<close>
  | ErrNotWithinDelta float64 float64 float64
      \<comment> \<open>\<open>"expected number within %v of %v, got %v"\<close>: delta, expected, f64\<close>
  | ErrNotWithinRange float64 float64 float64
      \<comment> \<open>\<open>"expected number within range %v to %v, got %v"\<close>: min, max, f64\<close>
  | ErrNotGreater float64 float64
      \<comment> \<open>\<open>"expected number greater than %v, got %v"\<close>: min, f64\<close>
  | ErrNotSmaller float64 float64
      \<comment> \<open>\<open>"expected number smaller than %v, got %v"\<close>: max, f64\<close>
  | ErrNotInteger float64
      \<comment> \<open>\<open>"expected integer, got %v"\<close>\<close>

text \<open>
  An expectation is a \<open>Matcher\<close> (a \<open>MatcherFunc\<close>: a function of the path and the value,
  returning an error or \<open>nil\<close>) or a literal. \<open>None\<close> is Go's \<open>nil\<close> error.
\<close>

datatype expected =
    Lit literal
  | Matcher "string \<Rightarrow> jvalue \<Rightarrow> expected merror option"

type_synonym result = "expected merror option"

type_synonym MatcherFunc = "string \<Rightarrow> jvalue \<Rightarrow> result"

section \<open>The matching engine\<close>

subsection \<open>The conversion \<open>float64(val.Int())\<close>\<close>

text \<open>
  Go converts an integer to the nearest \<open>float64\<close>, a tie going to the even significand
  of 53 bits. \<open>bit_length\<close> is the number of binary digits of a magnitude.
\<close>

fun bit_length :: "nat \<Rightarrow> nat" where
  "bit_length n = (if n = 0 then 0 else Suc (bit_length (n div 2)))"

declare bit_length.simps [simp del]

definition round_to_53_bits :: "nat \<Rightarrow> nat" where
  "round_to_53_bits a =
     (if bit_length a \<le> 53 then a
      else let e = bit_length a - 53;
               q = a div 2 ^ e;
               r = a mod 2 ^ e;
               half = 2 ^ (e - 1)
           in (if half < r \<or> (r = half \<and> odd q) then q + 1 else q) * 2 ^ e)"

definition float64_of_int64 :: "int \<Rightarrow> float64" where
  "float64_of_int64 n = Finite (of_int (sgn n * int (round_to_53_bits (nat \<bar>n\<bar>))))"

subsection \<open>\<open>reflect.DeepEqual\<close> and \<open>match\<close>\<close>

text \<open>
  \<open>reflect.DeepEqual(expected, actual)\<close> on a literal and a decoded value: two values of
  different dynamic types are never deeply equal, so an integer literal is deeply equal
  to no decoded value; floats are compared with \<open>==\<close>.
\<close>

fun DeepEqual :: "literal \<Rightarrow> jvalue \<Rightarrow> bool" where
  "DeepEqual LNil JNull = True"
| "DeepEqual (LBool b) (JBool c) = (b = c)"
| "DeepEqual (LString s) (JStr t) = (s = t)"
| "DeepEqual (LFloat64 x) (JNum y) = f64_eq x y"
| "DeepEqual _ _ = False"

text \<open>
  The \<open>switch val.Kind()\<close> of \<open>match\<close>: only the cases \<open>reflect.Int\<close> to \<open>reflect.Int64\<close>
  set \<open>matched\<close>, and only when \<open>actual\<close> is a \<open>float64\<close>.
\<close>

fun coerced_match :: "literal \<Rightarrow> jvalue \<Rightarrow> bool" where
  "coerced_match (LInt k n) (JNum f64) = f64_eq (float64_of_int64 n) f64"
| "coerced_match _ _ = False"

definition match :: "expected \<Rightarrow> string \<Rightarrow> jvalue \<Rightarrow> result" where
  "match expected path actual =
     (case expected of
        Matcher m \<Rightarrow> m path actual
      | Lit l \<Rightarrow>
          if DeepEqual l actual then None
          else if coerced_match l actual then None
          else Some (ErrMismatch path l actual))"

subsection \<open>String and time matchers\<close>

text \<open>
  Of the predicates on strings and times, \<open>OneOf\<close>, \<open>Regexp\<close> and \<open>TimeWithinRange\<close> are
  modelled, with the two constructors \<open>stringValue\<close> and \<open>timeValue\<close> all of them are
  built from: every error of a validator or of a parser gets its path there.
\<close>

text \<open>
  The loop over the validators in \<open>stringValue\<close> and in \<open>timeValue\<close>: the first error
  is wrapped with the path and returned.
\<close>

fun run_validators :: "('a \<Rightarrow> verror option) list \<Rightarrow> string \<Rightarrow> 'a \<Rightarrow> result" where
  "run_validators [] path s = None"
| "run_validators (v # validators) path s =
     (case v s of
        Some err \<Rightarrow> Some (ErrAt path err)
      | None \<Rightarrow> run_validators validators path s)"

definition stringValue :: "(string \<Rightarrow> verror option) list \<Rightarrow> MatcherFunc" where
  "stringValue validators = (\<lambda>path val.
     case val of
       JStr s \<Rightarrow> run_validators validators path s
     | _ \<Rightarrow> Some (ErrExpectedString path (type_of val)))"

definition OneOf :: "string list \<Rightarrow> MatcherFunc" where
  "OneOf options = stringValue
     [\<lambda>s. if s \<in> set options then None else Some (NotOneOf options s)]"

text \<open>
  \<open>Regexp\<close> calls \<open>regexp.Compile\<close> when it is constructed and keeps both results in
  the closure. The library is a parameter: \<open>Compile\<close> returns the error (\<open>Inl\<close>) or the
  compiled expression, \<open>MatchString\<close> runs a compiled expression on a string.
\<close>

definition Regexp ::
  "(string \<Rightarrow> string + 're) \<Rightarrow> ('re \<Rightarrow> string \<Rightarrow> bool) \<Rightarrow> string \<Rightarrow> MatcherFunc" where
  "Regexp Compile MatchString pattern =
     (let compiled = Compile pattern
      in stringValue
           [\<lambda>s. case compiled of
                   Inl err \<Rightarrow> Some (InvalidRegexp pattern err)
                 | Inr re \<Rightarrow>
                     if \<not> MatchString re s then Some (NoRegexpMatch pattern s) else None])"

text \<open>
  A \<open>time.Time\<close> that was parsed carries no monotonic clock reading, so \<open>Before\<close> and
  \<open>After\<close> compare instants: a \<open>Time\<close> is the instant, in nanoseconds since the epoch.
\<close>

definition Before :: "Time \<Rightarrow> Time \<Rightarrow> bool" where
  "Before t u = (t < u)"

definition After :: "Time \<Rightarrow> Time \<Rightarrow> bool" where
  "After t u = (u < t)"

definition timeValue ::
  "(string \<Rightarrow> verror + Time) \<Rightarrow> (Time \<Rightarrow> verror option) list \<Rightarrow> MatcherFunc" where
  "timeValue parser validators = (\<lambda>path val.
     case val of
       JStr s \<Rightarrow>
         (case parser s of
            Inl err \<Rightarrow> Some (ErrAt path err)
          | Inr parsed \<Rightarrow> run_validators validators path parsed)
     | _ \<Rightarrow> Some (ErrExpectedTimeString path (type_of val)))"

text \<open>
  \<open>rfc3339Parser\<close> is \<open>time.Parse(time.RFC3339, s)\<close> of the standard library, a
  parameter here.
\<close>

definition TimeWithinRange :: "(string \<Rightarrow> verror + Time) \<Rightarrow> Time \<Rightarrow> Time \<Rightarrow> MatcherFunc" where
  "TimeWithinRange rfc3339Parser startTime endTime = timeValue rfc3339Parser
     [\<lambda>parsed. if Before parsed startTime \<or> After parsed endTime
                then Some (TimeNotInRange startTime endTime parsed) else None]"

subsection \<open>Type and number matchers\<close>

definition Null :: MatcherFunc where
  "Null = (\<lambda>path val.
     if val \<noteq> JNull then Some (ErrExpectedNull path val) else None)"

definition Bool :: MatcherFunc where
  "Bool = (\<lambda>path val.
     case val of
       JBool b \<Rightarrow> None
     | _ \<Rightarrow> Some (ErrExpectedBoolean path (type_of val)))"

definition Number :: MatcherFunc where
  "Number = (\<lambda>path val.
     case val of
       JNum f64 \<Rightarrow> None
     | _ \<Rightarrow> Some (ErrExpectedNumber path (type_of val)))"

text \<open>
  \<open>NumberWithinDelta\<close> subtracts two floats; the subtraction of the machine, which
  rounds, is the parameter \<open>f64_sub\<close>.
\<close>

definition NumberWithinDelta ::
  "(float64 \<Rightarrow> float64 \<Rightarrow> float64) \<Rightarrow> float64 \<Rightarrow> float64 \<Rightarrow> MatcherFunc" where
  "NumberWithinDelta f64_sub expected delta = (\<lambda>path val.
     case val of
       JNum f64 \<Rightarrow>
         if f64_less delta (f64_abs (f64_sub f64 expected))
         then Some (ErrNotWithinDelta delta expected f64)
         else None
     | _ \<Rightarrow> Some (ErrExpectedNumber path (type_of val)))"

definition NumberWithinRange :: "float64 \<Rightarrow> float64 \<Rightarrow> MatcherFunc" where
  "NumberWithinRange minimum maximum = (\<lambda>path val.
     case val of
       JNum f64 \<Rightarrow>
         if f64_less f64 minimum \<or> f64_less maximum f64
         then Some (ErrNotWithinRange minimum maximum f64)
         else None
     | _ \<Rightarrow> Some (ErrExpectedNumber path (type_of val)))"

definition NumberGreater :: "float64 \<Rightarrow> MatcherFunc" where
  "NumberGreater minimum = (\<lambda>path val.
     case val of
       JNum f64 \<Rightarrow>
         if f64_le f64 minimum then Some (ErrNotGreater minimum f64) else None
     | _ \<Rightarrow> Some (ErrExpectedNumber path (type_of val)))"

definition NumberSmaller :: "float64 \<Rightarrow> MatcherFunc" where
  "NumberSmaller maximum = (\<lambda>path val.
     case val of
       JNum f64 \<Rightarrow>
         if f64_le maximum f64 then Some (ErrNotSmaller maximum f64) else None
     | _ \<Rightarrow> Some (ErrExpectedNumber path (type_of val)))"

definition Integer :: MatcherFunc where
  "Integer = (\<lambda>path val.
     case val of
       JNum f64 \<Rightarrow>
         if \<not> f64_eq f64 (Trunc f64) then Some (ErrNotInteger f64) else None
     | _ \<Rightarrow> Some (ErrExpectedNumber path (type_of val)))"

definition Positive :: MatcherFunc where
  "Positive = NumberGreater (Finite 0)"

definition Negative :: MatcherFunc where
  "Negative = NumberSmaller (Finite 0)"

subsection \<open>Objects\<close>

text \<open>
  The loop \<open>for key, expectedVal := range expected\<close> of \<open>Object\<close> and \<open>StrictObject\<close>;
  \<open>actualMap[key]\<close> is \<open>map_of actualMap key\<close>.
\<close>

fun object_loop :: "string \<Rightarrow> (string \<times> jvalue) list \<Rightarrow> (string \<times> expected) list \<Rightarrow> result" where
  "object_loop path actualMap [] = None"
| "object_loop path actualMap ((key, expectedVal) # rest) =
     (case map_of actualMap key of
        None \<Rightarrow> Some (ErrMissingKey path key)
      | Some actualVal \<Rightarrow>
          (case match expectedVal (path @ ''.'' @ key) actualVal of
             Some err \<Rightarrow> Some err
           | None \<Rightarrow> object_loop path actualMap rest))"

definition Object :: "(string \<times> expected) list \<Rightarrow> MatcherFunc" where
  "Object expected = (\<lambda>path val.
     case val of
       JObj actualMap \<Rightarrow> object_loop path actualMap expected
     | _ \<Rightarrow> Some (ErrExpectedObject path (type_of val)))"

text \<open>The loop \<open>for key := range actualMap\<close> of \<open>StrictObject\<close>.\<close>

fun unexpected_loop :: "string \<Rightarrow> (string \<times> expected) list \<Rightarrow> string list \<Rightarrow> result" where
  "unexpected_loop path expected [] = None"
| "unexpected_loop path expected (key # keys) =
     (if map_of expected key = None then Some (ErrUnexpectedKey path key)
      else unexpected_loop path expected keys)"

definition StrictObject :: "(string \<times> expected) list \<Rightarrow> MatcherFunc" where
  "StrictObject expected = (\<lambda>path val.
     case val of
       JObj actualMap \<Rightarrow>
         (case unexpected_loop path expected (map fst actualMap) of
            Some err \<Rightarrow> Some err
          | None \<Rightarrow> object_loop path actualMap expected)
     | _ \<Rightarrow> Some (ErrExpectedObject path (type_of val)))"

subsection \<open>Arrays\<close>

text \<open>\<open>%d\<close> of an index: its decimal digits.\<close>

fun fmt_d :: "nat \<Rightarrow> string" where
  "fmt_d n =
     (if n < 10 then [''0123456789'' ! n]
      else fmt_d (n div 10) @ [''0123456789'' ! (n mod 10)])"

declare fmt_d.simps [simp del]

text \<open>
  The loop \<open>for i, expected := range elements\<close> of \<open>Array\<close>, from index \<open>i\<close> on. It
  runs after the check of the lengths, so \<open>arr[i]\<close> is in range.
\<close>

fun array_loop :: "string \<Rightarrow> jvalue list \<Rightarrow> nat \<Rightarrow> expected list \<Rightarrow> result" where
  "array_loop path arr i [] = None"
| "array_loop path arr i (expected # rest) =
     (case match expected (path @ ''['' @ fmt_d i @ '']'') (arr ! i) of
        Some err \<Rightarrow> Some err
      | None \<Rightarrow> array_loop path arr (Suc i) rest)"

definition Array :: "expected list \<Rightarrow> MatcherFunc" where
  "Array elements = (\<lambda>path val.
     case val of
       JArr arr \<Rightarrow>
         if length arr \<noteq> length elements
         then Some (ErrArrayLength path (length elements) (length arr))
         else array_loop path arr 0 elements
     | _ \<Rightarrow> Some (ErrExpectedArray path (type_of val)))"




subsection \<open>The entry point\<close>

text \<open>
  \<open>isMatch\<close> decodes the body and matches from the root path \<open>$\<close>. \<open>json.Unmarshal\<close> is
  a parameter: it returns its error (\<open>Inl\<close>) or the decoded value.
\<close>

datatype body = BodyString string | BodyBytes string | BodyOther

definition isMatch :: "(string \<Rightarrow> string + jvalue) \<Rightarrow> body \<Rightarrow> expected \<Rightarrow> result" where
  "isMatch Unmarshal body expected =
     (case body of
        BodyOther \<Rightarrow> Some ErrBody
      | BodyString b \<Rightarrow>
          (case Unmarshal b of
             Inl err \<Rightarrow> Some (ErrInvalidJson err)
           | Inr actual \<Rightarrow> match expected ''$'' actual)
      | BodyBytes b \<Rightarrow>
          (case Unmarshal b of
             Inl err \<Rightarrow> Some (ErrInvalidJson err)
           | Inr actual \<Rightarrow> match expected ''$'' actual))"

section \<open>Notions used to state the properties\<close>

text \<open>
  None of the definitions of this section is code of the engine: they name what the
  properties below speak about.
\<close>

text \<open>
  Go's conversion of an unsigned integer to \<open>float64\<close>, with the same rounding as
  \<open>float64_of_int64\<close>. The engine never calls it; it says what number an unsigned
  literal denotes.
\<close>

definition float64_of_uint64 :: "nat \<Rightarrow> float64" where
  "float64_of_uint64 n = Finite (real (round_to_53_bits n))"




text \<open>The location a failure message states: the path of its \<open>"at %s"\<close>, if it has one.\<close>

fun error_path :: "'x merror \<Rightarrow> string option" where
  "error_path (ErrMismatch path l v) = Some path"
| "error_path (ErrExpectedString path t) = Some path"
| "error_path (ErrExpectedTimeString path t) = Some path"
| "error_path (ErrAt path err) = Some path"
| "error_path (ErrExpectedObject path t) = Some path"
| "error_path (ErrMissingKey path k) = Some path"
| "error_path (ErrUnexpectedKey path k) = Some path"
| "error_path (ErrExpectedArray path t) = Some path"
| "error_path (ErrArrayLength path n m) = Some path"
| "error_path (ErrNotFound path e i) = Some path"
| "error_path (ErrExpectedNull path v) = Some path"
| "error_path (ErrExpectedBoolean path t) = Some path"
| "error_path (ErrExpectedNumber path t) = Some path"
| "error_path ErrBody = None"
| "error_path (ErrInvalidJson err) = None"
| "error_path (ErrNotWithinDelta delta expected f64) = None"
| "error_path (ErrNotWithinRange minimum maximum f64) = None"
| "error_path (ErrNotGreater minimum f64) = None"
| "error_path (ErrNotSmaller maximum f64) = None"
| "error_path (ErrNotInteger f64) = None"

text \<open>The key set of a map.\<close>

definition keys_of :: "(string \<times> 'a) list \<Rightarrow> string set" where
  "keys_of m = fst ` set m"

text \<open>
  Every key of the expected map \<open>E\<close> is present in the actual map \<open>A\<close>, and its value
  matches at the child path.
\<close>

definition expected_keys_match ::
  "string \<Rightarrow> (string \<times> expected) list \<Rightarrow> (string \<times> jvalue) list \<Rightarrow> bool" where
  "expected_keys_match path E A =
     (\<forall>(k, e) \<in> set E. \<exists>v. map_of A k = Some v \<and> match e (path @ ''.'' @ k) v = None)"

text \<open>Every key of \<open>E\<close> that \<open>A\<close> has matches; a key of \<open>E\<close> may be absent from \<open>A\<close>.\<close>

definition shared_keys_match ::
  "string \<Rightarrow> (string \<times> expected) list \<Rightarrow> (string \<times> jvalue) list \<Rightarrow> bool" where
  "shared_keys_match path E A =
     (\<forall>(k, e) \<in> set E. \<forall>v. map_of A k = Some v \<longrightarrow> match e (path @ ''.'' @ k) v = None)"

text \<open>
  What \<open>time.Parse(time.RFC3339, s)\<close> returns on the one timestamp of the concrete
  instances below, ten seconds after the epoch; a stand-in for the library there.
\<close>

definition sample_rfc3339Parser :: "string \<Rightarrow> verror + Time" where
  "sample_rfc3339Parser s =
     (if s = ''1970-01-01T00:00:10Z'' then Inr 10000000000
      else Inl (LibraryError ''cannot parse''))"

section \<open>Scalars: integers against decoded numbers\<close>

lemma bit_length_le_iff: "bit_length a \<le> k \<longleftrightarrow> a < 2 ^ k"
proof (induction k arbitrary: a)
  case 0
  show ?case by (subst bit_length.simps) simp
next
  case (Suc k)
  show ?case by (subst bit_length.simps) (auto simp: Suc)
qed

lemma round_to_53_bits_small: "a < 2 ^ 53 \<Longrightarrow> round_to_53_bits a = a"
  by (simp add: round_to_53_bits_def bit_length_le_iff)

text \<open>An integer of less than 54 bits is converted without rounding.\<close>

lemma float64_of_int64_exact:
  assumes "\<bar>n\<bar> < 2 ^ 53"
  shows "float64_of_int64 n = Finite (of_int n)"
proof -
  from assms have "nat \<bar>n\<bar> < 2 ^ 53"
    by (simp add: nat_less_iff)
  then have "round_to_53_bits (nat \<bar>n\<bar>) = nat \<bar>n\<bar>"
    by (rule round_to_53_bits_small)
  moreover have "sgn n * \<bar>n\<bar> = n"
    by (simp add: mult_sgn_abs)
  ultimately show ?thesis
    by (simp add: float64_of_int64_def)
qed

lemma float64_of_int64_not_NaN: "float64_of_int64 n \<noteq> NaN"
  by (simp add: float64_of_int64_def)

text \<open>
  Above \<open>2 ^ 53\<close> the conversion rounds: \<open>2 ^ 53 + 1\<close> lies half way between two
  floats and goes to the even one, \<open>2 ^ 53\<close>.
\<close>

lemma bit_length_tie: "bit_length 9007199254740993 = 54"
proof -
  have "bit_length 9007199254740993 \<le> 54"
    by (simp add: bit_length_le_iff)
  moreover have "\<not> bit_length 9007199254740993 \<le> 53"
    by (simp add: bit_length_le_iff)
  ultimately show ?thesis by simp
qed

lemma float64_of_int64_rounds:
  "float64_of_int64 9007199254740993 = Finite 9007199254740992"
  by (simp add: float64_of_int64_def round_to_53_bits_def bit_length_tie)

lemma match_int_literal_number:
  "match (Lit (LInt k n)) path (JNum f) = None \<longleftrightarrow> f = float64_of_int64 n"
  by (auto simp: match_def f64_eq_def float64_of_int64_not_NaN)


lemma match_other_literal:
  "\<forall>k n. l \<noteq> LInt k n \<Longrightarrow> match (Lit l) path a = None \<longleftrightarrow> DeepEqual l a"
  by (cases l) (simp_all add: match_def)

text \<open>
  C3, as the claim states it, fails for an unsigned literal: \<open>uint(1)\<close> converts to
  exactly \<open>1.0\<close>, yet \<open>match\<close> does not treat the two as equal.
\<close>

theorem coercion_unsigned_counterexample:
  "\<not> (match (Lit (LUint KUint 1)) ''$'' (JNum (Finite 1)) = None
        \<longleftrightarrow> f64_eq (float64_of_uint64 1) (Finite 1))"
  by (simp add: match_def float64_of_uint64_def round_to_53_bits_small f64_eq_def)

text \<open>
  C3 (amended to the signed kinds): for every expected literal \<open>n\<close> of kind \<open>int\<close>,
  \<open>int8\<close>, \<open>int16\<close>, \<open>int32\<close> or \<open>int64\<close> and every decoded float \<open>f\<close>, the two are
  never deeply equal, and \<open>match\<close> succeeds if and only if \<open>float64(n) == f\<close>; below
  \<open>2 ^ 53\<close> in magnitude that is: \<open>f\<close> is the number \<open>n\<close> itself. The coercion is tried
  only for an integer expectation against a decoded float; a float expectation
  matches by deep equality alone.
\<close>

theorem coercion_signed_exact:
  "(match (Lit (LInt k n)) path (JNum f) = None \<longleftrightarrow> f64_eq (float64_of_int64 n) f)
   \<and> \<not> DeepEqual (LInt k n) (JNum f)
   \<and> (\<bar>n\<bar> < 2 ^ 53 \<longrightarrow>
        (match (Lit (LInt k n)) path (JNum f) = None \<longleftrightarrow> f = Finite (of_int n)))
   \<and> (coerced_match l a \<longrightarrow> (\<exists>k' n' f'. l = LInt k' n' \<and> a = JNum f'))
   \<and> (match (Lit (LFloat64 x)) path a = None \<longleftrightarrow> DeepEqual (LFloat64 x) a)"
proof -
  have 1: "match (Lit (LInt k n)) path (JNum f) = None \<longleftrightarrow> f64_eq (float64_of_int64 n) f"
    by (simp add: match_def)
  have 3: "\<bar>n\<bar> < 2 ^ 53 \<longrightarrow>
        (match (Lit (LInt k n)) path (JNum f) = None \<longleftrightarrow> f = Finite (of_int n))"
    by (simp add: match_int_literal_number float64_of_int64_exact)
  have 4: "coerced_match l a \<longrightarrow> (\<exists>k' n' f'. l = LInt k' n' \<and> a = JNum f')"
    by (cases "(l, a)" rule: coerced_match.cases) simp_all
  have 5: "match (Lit (LFloat64 x)) path a = None \<longleftrightarrow> DeepEqual (LFloat64 x) a"
    by (simp add: match_other_literal)
  from 1 3 4 5 show ?thesis by simp
qed

theorem coercion_signed_exact_witness:
  "match (Lit (LInt KInt64 123)) ''$'' (JNum (Finite 123)) = None
   \<and> match (Lit (LInt KInt64 123)) ''$'' (JNum (Finite 123.5)) \<noteq> None
   \<and> match (Lit (LInt KInt64 9007199254740993)) ''$'' (JNum (Finite 9007199254740992)) = None
   \<and> coerced_match (LInt KInt 123) (JNum (Finite 123))"
  using coercion_signed_exact
          [of KInt64 123 "''$''" "Finite 123" "LInt KInt 123" "JNum (Finite 123)"]
        coercion_signed_exact
          [of KInt64 123 "''$''" "Finite 123.5" "LInt KInt 123" "JNum (Finite 123)"]
        coercion_signed_exact
          [of KInt64 9007199254740993 "''$''" "Finite 9007199254740992" "LInt KInt 123"
              "JNum (Finite 123)"]
  by (simp add: f64_eq_def float64_of_int64_exact float64_of_int64_rounds)

text \<open>
  C7, as the claim states it, fails: the message of expectation \<open>123\<close> against the
  decoded \<open>456\<close> is not the one with \<open>456\<close> as the expected and \<open>123\<close> as the actual
  value.
\<close>

theorem mismatch_message_swapped_counterexample:
  "match (Lit (LInt KInt 123)) ''$'' (JNum (Finite 456))
     \<noteq> Some (ErrMismatch ''$'' (LInt KInt 456) (JNum (Finite 123)))"
  by (simp add: match_def)

text \<open>
  C7 (amended): the literal expectation \<open>123\<close> against the decoded value \<open>456\<close> fails,
  and the message states the expectation first: expected \<open>123\<close> (\<open>int\<close>), got \<open>456\<close>
  (\<open>float64\<close>), at the path of the call.
\<close>

theorem mismatch_message_expected_then_actual:
  "match (Lit (LInt KInt 123)) path (JNum (Finite 456))
     = Some (ErrMismatch path (LInt KInt 123) (JNum (Finite 456)))"
  by (simp add: match_def f64_eq_def float64_of_int64_exact)

text \<open>
  C9: an expected literal of an unsigned kind never matches a decoded number, whatever
  the two values are: \<open>match\<close> returns the mismatch of the literal and the number.
\<close>

theorem unsigned_literal_never_matches:
  "match (Lit (LUint k n)) path (JNum f) = Some (ErrMismatch path (LUint k n) (JNum f))"
  by (simp add: match_def)

section \<open>Ordered arrays\<close>

lemma array_loop_None_iff:
  "array_loop path arr i es = None \<longleftrightarrow>
     (\<forall>k<length es. match (es ! k) (path @ ''['' @ fmt_d (i + k) @ '']'') (arr ! (i + k)) = None)"
proof (induction es arbitrary: i)
  case Nil
  show ?case by simp
next
  case (Cons e es)
  show ?case
  proof (cases "match e (path @ ''['' @ fmt_d i @ '']'') (arr ! i)")
    case (Some err)
    then have "\<not> (\<forall>k<length (e # es).
        match ((e # es) ! k) (path @ ''['' @ fmt_d (i + k) @ '']'') (arr ! (i + k)) = None)"
      by (auto intro!: exI [of _ 0])
    with Some show ?thesis by simp
  next
    case None
    have "(\<forall>k<length (e # es).
            match ((e # es) ! k) (path @ ''['' @ fmt_d (i + k) @ '']'') (arr ! (i + k)) = None)
          \<longleftrightarrow> (\<forall>k<length es.
            match (es ! k) (path @ ''['' @ fmt_d (Suc i + k) @ '']'') (arr ! (Suc i + k)) = None)"
      using None by (auto simp: less_Suc_eq_0_disj)
    with None Cons.IH [of "Suc i"] show ?thesis by simp
  qed
qed

lemma array_loop_first_failure:
  assumes "k < length es"
    and "\<forall>j<k. match (es ! j) (path @ ''['' @ fmt_d (i + j) @ '']'') (arr ! (i + j)) = None"
    and "match (es ! k) (path @ ''['' @ fmt_d (i + k) @ '']'') (arr ! (i + k)) = Some err"
  shows "array_loop path arr i es = Some err"
  using assms
proof (induction es arbitrary: i k)
  case Nil
  then show ?case by simp
next
  case (Cons e es)
  show ?case
  proof (cases k)
    case 0
    with Cons.prems show ?thesis by simp
  next
    case (Suc k')
    from Cons.prems(2) Suc have e: "match e (path @ ''['' @ fmt_d i @ '']'') (arr ! i) = None"
      by (auto dest: spec [of _ 0])
    have a: "\<forall>j<k'. match (es ! j) (path @ ''['' @ fmt_d (Suc i + j) @ '']'') (arr ! (Suc i + j)) = None"
    proof (intro allI impI)
      fix j assume "j < k'"
      then have "Suc j < k" using Suc by simp
      with Cons.prems(2) have "match ((e # es) ! Suc j) (path @ ''['' @ fmt_d (i + Suc j) @ '']'') (arr ! (i + Suc j)) = None"
        by blast
      then show "match (es ! j) (path @ ''['' @ fmt_d (Suc i + j) @ '']'') (arr ! (Suc i + j)) = None"
        by simp
    qed
    have b: "match (es ! k') (path @ ''['' @ fmt_d (Suc i + k') @ '']'') (arr ! (Suc i + k')) = Some err"
      using Cons.prems(3) Suc by simp
    have c: "k' < length es" using Cons.prems(1) Suc by simp
    have "array_loop path arr (Suc i) es = Some err"
      by (rule Cons.IH [OF c a b])
    with e show ?thesis by simp
  qed
qed

text \<open>
  C2: the ordered \<open>Array\<close> matcher succeeds if and only if the expected list and the
  actual sequence have the same length and every element matches the actual element
  of its index, at the path extended with that index. With different lengths it fails
  with the message of the expected and the actual length; on a value that is not a
  sequence it fails with the type mismatch.
\<close>

theorem array_ordered_iff:
  "(Array es path (JArr arr) = None \<longleftrightarrow>
      length es = length arr \<and>
      (\<forall>i<length es. match (es ! i) (path @ ''['' @ fmt_d i @ '']'') (arr ! i) = None))
   \<and> (length es \<noteq> length arr \<longrightarrow>
        Array es path (JArr arr) = Some (ErrArrayLength path (length es) (length arr)))
   \<and> ((\<forall>xs. v \<noteq> JArr xs) \<longrightarrow> Array es path v = Some (ErrExpectedArray path (type_of v)))"
proof (intro conjI impI)
  show "Array es path (JArr arr) = None \<longleftrightarrow>
      length es = length arr \<and>
      (\<forall>i<length es. match (es ! i) (path @ ''['' @ fmt_d i @ '']'') (arr ! i) = None)"
    using array_loop_None_iff [of path arr 0 es] by (auto simp: Array_def)
next
  assume "length es \<noteq> length arr"
  then show "Array es path (JArr arr) = Some (ErrArrayLength path (length es) (length arr))"
    by (auto simp: Array_def)
next
  assume "\<forall>xs. v \<noteq> JArr xs"
  then show "Array es path v = Some (ErrExpectedArray path (type_of v))"
    by (cases v) (simp_all add: Array_def)
qed

theorem array_ordered_iff_witness:
  "Array [Lit (LBool True), Matcher (OneOf [''two''])] ''$'' (JArr [JBool True, JStr ''two''])
     = None
   \<and> Array [Lit (LBool True), Lit (LBool False), Lit (LNil)] ''$''
        (JArr [JBool True, JBool False])
     = Some (ErrArrayLength ''$'' 3 2)
   \<and> Array [Lit (LBool True)] ''$'' (JStr ''x'') = Some (ErrExpectedArray ''$'' TString)"
  using array_ordered_iff
          [of "[Lit (LBool True), Matcher (OneOf [''two''])]" "''$''"
              "[JBool True, JStr ''two'']" "JStr ''x''"]
        array_ordered_iff
          [of "[Lit (LBool True), Lit (LBool False), Lit (LNil)]" "''$''"
              "[JBool True, JBool False]" "JStr ''x''"]
        array_ordered_iff
          [of "[Lit (LBool True)]" "''$''" "[]" "JStr ''x''"]
  by (simp add: match_def OneOf_def stringValue_def fmt_d.simps less_Suc_eq_0_disj)

section \<open>Objects\<close>

lemma map_of_None_keys_of: "map_of m k = None \<longleftrightarrow> k \<notin> keys_of m"
  by (simp add: keys_of_def map_of_eq_None_iff)

lemma object_loop_None_iff:
  "object_loop path A E = None \<longleftrightarrow> expected_keys_match path E A"
  by (induction E) (auto simp: expected_keys_match_def split: option.splits)

lemma unexpected_loop_None_iff:
  "unexpected_loop path E ks = None \<longleftrightarrow> set ks \<subseteq> keys_of E"
  by (induction ks) (auto simp: map_of_None_keys_of)

lemma unexpected_loop_Some:
  "unexpected_loop path E ks = Some err \<Longrightarrow>
     \<exists>k. err = ErrUnexpectedKey path k \<and> k \<in> set ks \<and> k \<notin> keys_of E"
  by (induction ks) (auto simp: map_of_None_keys_of split: if_splits)

lemma expected_keys_match_keys:
  "expected_keys_match path E A \<Longrightarrow> keys_of E \<subseteq> keys_of A"
proof
  fix k assume "k \<in> keys_of E"
  then obtain e where "(k, e) \<in> set E"
    by (auto simp: keys_of_def)
  moreover assume "expected_keys_match path E A"
  ultimately obtain v where "map_of A k = Some v"
    by (auto simp: expected_keys_match_def)
  then show "k \<in> keys_of A"
    using map_of_None_keys_of [of A k] by simp
qed

lemma object_loop_missing:
  assumes "shared_keys_match path E A" and "k \<in> keys_of E" and "k \<notin> keys_of A"
  shows "\<exists>k'. object_loop path A E = Some (ErrMissingKey path k') \<and> k' \<in> keys_of E \<and> k' \<notin> keys_of A"
  using assms
proof (induction E)
  case Nil
  then show ?case by (simp add: keys_of_def)
next
  case (Cons p E)
  obtain key e where p: "p = (key, e)" by (cases p)
  show ?case
  proof (cases "map_of A key")
    case None
    then have "key \<notin> keys_of A"
      by (simp add: map_of_None_keys_of)
    moreover have "key \<in> keys_of (p # E)"
      using p by (simp add: keys_of_def)
    moreover have "object_loop path A (p # E) = Some (ErrMissingKey path key)"
      using None p by simp
    ultimately show ?thesis by blast
  next
    case (Some v)
    with Cons.prems(1) p have m: "match e (path @ ''.'' @ key) v = None"
      by (simp add: shared_keys_match_def)
    from Some have "key \<in> keys_of A"
      using map_of_None_keys_of [of A key] by simp
    with Cons.prems(2,3) p have "k \<in> keys_of E"
      by (auto simp: keys_of_def)
    moreover from Cons.prems(1) have "shared_keys_match path E A"
      by (simp add: shared_keys_match_def)
    ultimately obtain k' where "object_loop path A E = Some (ErrMissingKey path k')"
        "k' \<in> keys_of E" "k' \<notin> keys_of A"
      using Cons.IH Cons.prems(3) by blast
    with Some m p show ?thesis by (auto simp: keys_of_def)
  qed
qed

lemma Object_None_iff:
  "Object E path (JObj A) = None \<longleftrightarrow> expected_keys_match path E A"
  by (simp add: Object_def object_loop_None_iff)

lemma StrictObject_None_iff:
  "StrictObject E path (JObj A) = None \<longleftrightarrow> keys_of A = keys_of E \<and> expected_keys_match path E A"
proof -
  have "StrictObject E path (JObj A) = None \<longleftrightarrow> keys_of A \<subseteq> keys_of E \<and> expected_keys_match path E A"
    using unexpected_loop_None_iff [of path E "map fst A"]
    by (auto simp: StrictObject_def object_loop_None_iff keys_of_def split: option.splits)
  then show ?thesis using expected_keys_match_keys [of path E A] by auto
qed

lemma StrictObject_unexpected:
  assumes "k \<in> keys_of A" and "k \<notin> keys_of E"
  shows "\<exists>k'. StrictObject E path (JObj A) = Some (ErrUnexpectedKey path k') \<and> k' \<in> keys_of A \<and> k' \<notin> keys_of E"
proof -
  from assms have "\<not> set (map fst A) \<subseteq> keys_of E"
    by (auto simp: keys_of_def)
  then obtain err where e: "unexpected_loop path E (map fst A) = Some err"
    using unexpected_loop_None_iff [of path E "map fst A"] by (cases "unexpected_loop path E (map fst A)") auto
  from unexpected_loop_Some [OF e] obtain k' where "err = ErrUnexpectedKey path k'" "k' \<in> set (map fst A)" "k' \<notin> keys_of E"
    by blast
  with e show ?thesis by (auto simp: StrictObject_def keys_of_def)
qed

lemma StrictObject_missing:
  assumes "shared_keys_match path E A" and "k \<in> keys_of E" and "k \<notin> keys_of A" and "keys_of A \<subseteq> keys_of E"
  shows "\<exists>k'. StrictObject E path (JObj A) = Some (ErrMissingKey path k') \<and> k' \<in> keys_of E \<and> k' \<notin> keys_of A"
proof -
  from assms(4) have "unexpected_loop path E (map fst A) = None"
    by (simp add: unexpected_loop_None_iff keys_of_def)
  then have "StrictObject E path (JObj A) = object_loop path A E"
    by (simp add: StrictObject_def)
  with object_loop_missing [OF assms(1-3)] show ?thesis by simp
qed

text \<open>
  C1, as the claim states it, fails in its last sentence: under \<open>StrictObject\<close> the key
  \<open>a\<close> of the expected map is absent from the actual map, and the failure is the
  unexpected key \<open>b\<close>, not a missing key.
\<close>

theorem strict_object_unexpected_first_counterexample:
  "''a'' \<in> keys_of [(''a'', Lit (LInt KInt 1))]
   \<and> ''a'' \<notin> keys_of [(''b'', JNum (Finite 2))]
   \<and> StrictObject [(''a'', Lit (LInt KInt 1))] ''$'' (JObj [(''b'', JNum (Finite 2))])
        = Some (ErrUnexpectedKey ''$'' ''b'')"
  by (simp add: keys_of_def StrictObject_def)

text \<open>
  C1 (amended): when every key of \<open>E\<close> is present in \<open>A\<close> and its value matches,
  \<open>Object E\<close> succeeds whatever other keys \<open>A\<close> has, and \<open>StrictObject E\<close> succeeds if and
  only if the key set of \<open>A\<close> is the key set of \<open>E\<close>; these are all the successes of the
  two variants. A key of \<open>E\<close> absent from \<open>A\<close> makes both variants fail; the failure is a
  missing-key failure when every key of \<open>E\<close> that \<open>A\<close> has matches and, under
  \<open>StrictObject\<close>, \<open>A\<close> has no extra key. An extra key of \<open>A\<close> is always an unexpected-key
  failure under \<open>StrictObject\<close>.
\<close>

theorem object_partial_and_strict:
  "(expected_keys_match path E A \<longrightarrow>
      Object E path (JObj A) = None \<and>
      (StrictObject E path (JObj A) = None \<longleftrightarrow> keys_of A = keys_of E))
   \<and> (Object E path (JObj A) = None \<longleftrightarrow> expected_keys_match path E A)
   \<and> (StrictObject E path (JObj A) = None \<longleftrightarrow>
        keys_of A = keys_of E \<and> expected_keys_match path E A)
   \<and> (k \<in> keys_of E \<and> k \<notin> keys_of A \<longrightarrow>
        Object E path (JObj A) \<noteq> None \<and> StrictObject E path (JObj A) \<noteq> None)
   \<and> (k \<in> keys_of E \<and> k \<notin> keys_of A \<and> shared_keys_match path E A \<longrightarrow>
        (\<exists>k'. Object E path (JObj A) = Some (ErrMissingKey path k')
              \<and> k' \<in> keys_of E \<and> k' \<notin> keys_of A))
   \<and> (k \<in> keys_of E \<and> k \<notin> keys_of A \<and> shared_keys_match path E A
        \<and> keys_of A \<subseteq> keys_of E \<longrightarrow>
        (\<exists>k'. StrictObject E path (JObj A) = Some (ErrMissingKey path k')
              \<and> k' \<in> keys_of E \<and> k' \<notin> keys_of A))
   \<and> (x \<in> keys_of A \<and> x \<notin> keys_of E \<longrightarrow>
        (\<exists>k'. StrictObject E path (JObj A) = Some (ErrUnexpectedKey path k')
              \<and> k' \<in> keys_of A \<and> k' \<notin> keys_of E))"
proof (intro conjI impI)
  assume "expected_keys_match path E A"
  then show "Object E path (JObj A) = None"
    and "StrictObject E path (JObj A) = None \<longleftrightarrow> keys_of A = keys_of E"
    by (simp_all add: Object_None_iff StrictObject_None_iff)
next
  show "Object E path (JObj A) = None \<longleftrightarrow> expected_keys_match path E A"
    by (rule Object_None_iff)
next
  show "StrictObject E path (JObj A) = None \<longleftrightarrow>
        keys_of A = keys_of E \<and> expected_keys_match path E A"
    by (rule StrictObject_None_iff)
next
  assume a: "k \<in> keys_of E \<and> k \<notin> keys_of A"
  then have "\<not> expected_keys_match path E A"
    using expected_keys_match_keys [of path E A] by auto
  then show "Object E path (JObj A) \<noteq> None" and "StrictObject E path (JObj A) \<noteq> None"
    by (simp_all add: Object_None_iff StrictObject_None_iff)
next
  assume "k \<in> keys_of E \<and> k \<notin> keys_of A \<and> shared_keys_match path E A"
  then show "\<exists>k'. Object E path (JObj A) = Some (ErrMissingKey path k')
              \<and> k' \<in> keys_of E \<and> k' \<notin> keys_of A"
    using object_loop_missing [of path E A k] by (simp add: Object_def)
next
  assume "k \<in> keys_of E \<and> k \<notin> keys_of A \<and> shared_keys_match path E A
        \<and> keys_of A \<subseteq> keys_of E"
  then show "\<exists>k'. StrictObject E path (JObj A) = Some (ErrMissingKey path k')
              \<and> k' \<in> keys_of E \<and> k' \<notin> keys_of A"
    using StrictObject_missing [of path E A k] by simp
next
  assume "x \<in> keys_of A \<and> x \<notin> keys_of E"
  then show "\<exists>k'. StrictObject E path (JObj A) = Some (ErrUnexpectedKey path k')
              \<and> k' \<in> keys_of A \<and> k' \<notin> keys_of E"
    using StrictObject_unexpected [of x A E path] by simp
qed

theorem object_partial_and_strict_witness:
  "expected_keys_match ''$'' [(''a'', Lit (LInt KInt 1))]
       [(''a'', JNum (Finite 1)), (''b'', JNum (Finite 2))]
   \<and> Object [(''a'', Lit (LInt KInt 1))] ''$''
       (JObj [(''a'', JNum (Finite 1)), (''b'', JNum (Finite 2))])
     = None
   \<and> StrictObject [(''a'', Lit (LInt KInt 1))] ''$''
       (JObj [(''a'', JNum (Finite 1)), (''b'', JNum (Finite 2))])
     = Some (ErrUnexpectedKey ''$'' ''b'')
   \<and> StrictObject [(''a'', Lit (LInt KInt 1))] ''$'' (JObj [(''a'', JNum (Finite 1))])
     = None
   \<and> shared_keys_match ''$'' [(''a'', Lit (LInt KInt 1)), (''b'', Lit (LInt KInt 2))]
       [(''a'', JNum (Finite 1))]
   \<and> Object [(''a'', Lit (LInt KInt 1)), (''b'', Lit (LInt KInt 2))] ''$''
       (JObj [(''a'', JNum (Finite 1))])
     = Some (ErrMissingKey ''$'' ''b'')
   \<and> StrictObject [(''a'', Lit (LInt KInt 1)), (''b'', Lit (LInt KInt 2))] ''$''
       (JObj [(''a'', JNum (Finite 1))])
     = Some (ErrMissingKey ''$'' ''b'')"
  using object_partial_and_strict
          [of "''$''" "[(''a'', Lit (LInt KInt 1))]"
              "[(''a'', JNum (Finite 1)), (''b'', JNum (Finite 2))]" "''a''" "''b''"]
        object_partial_and_strict
          [of "''$''" "[(''a'', Lit (LInt KInt 1))]" "[(''a'', JNum (Finite 1))]"
              "''a''" "''b''"]
        object_partial_and_strict
          [of "''$''" "[(''a'', Lit (LInt KInt 1)), (''b'', Lit (LInt KInt 2))]"
              "[(''a'', JNum (Finite 1))]" "''b''" "''c''"]
  by (simp add: expected_keys_match_def shared_keys_match_def keys_of_def match_def
        float64_of_int64_exact f64_eq_def Object_def StrictObject_def)

section \<open>Paths\<close>

lemma object_loop_first_failure:
  assumes "expected_keys_match path E1 A"
    and "map_of A k = Some v"
    and "match e (path @ ''.'' @ k) v = Some err"
  shows "object_loop path A (E1 @ (k, e) # E2) = Some err"
  using assms(1)
proof (induction E1)
  case Nil
  show ?case using assms(2,3) by simp
next
  case (Cons p E1)
  obtain key e' where p: "p = (key, e')" by (cases p)
  from Cons.prems p obtain v' where "map_of A key = Some v'"
      "match e' (path @ ''.'' @ key) v' = None"
    by (auto simp: expected_keys_match_def)
  moreover from Cons.prems have "expected_keys_match path E1 A"
    by (simp add: expected_keys_match_def)
  ultimately show ?case using Cons.IH p by simp
qed

text \<open>
  \<open>isMatch\<close> starts at the path \<open>$\<close>; \<open>Object\<close> hands the path extended with \<open>.key\<close> to
  the expectation of a key, \<open>Array\<close> the path extended with \<open>[index]\<close> to the
  expectation of an index, and the error of the first expectation that fails is
  returned as it is. So the document \<open>{"a":{"b":[1,2,3]}}\<close> against
  \<open>Object({"a": Object({"b": Array(1,2,9)})})\<close> fails at the path \<open>$.a.b[2]\<close>.
\<close>

lemma first_error_is_returned:
  "(Unmarshal b =
      Inr (JObj [(''a'', JObj [(''b'',
             JArr [JNum (Finite 1), JNum (Finite 2), JNum (Finite 3)])])]) \<longrightarrow>
      isMatch Unmarshal (BodyString b)
        (Matcher (Object [(''a'', Matcher (Object [(''b'',
           Matcher (Array [Lit (LInt KInt 1), Lit (LInt KInt 2), Lit (LInt KInt 9)]))]))]))
      = Some (ErrMismatch ''$.a.b[2]'' (LInt KInt 9) (JNum (Finite 3))))
   \<and> (expected_keys_match path E1 A \<and> map_of A k = Some v
        \<and> match e (path @ ''.'' @ k) v = Some err \<longrightarrow>
        Object (E1 @ (k, e) # E2) path (JObj A) = Some err)
   \<and> (length es = length arr \<and> i < length es
        \<and> (\<forall>j<i. match (es ! j) (path @ ''['' @ fmt_d j @ '']'') (arr ! j) = None)
        \<and> match (es ! i) (path @ ''['' @ fmt_d i @ '']'') (arr ! i) = Some err \<longrightarrow>
        Array es path (JArr arr) = Some err)"
proof (intro conjI impI)
  assume "Unmarshal b =
      Inr (JObj [(''a'', JObj [(''b'',
             JArr [JNum (Finite 1), JNum (Finite 2), JNum (Finite 3)])])])"
  then show "isMatch Unmarshal (BodyString b)
        (Matcher (Object [(''a'', Matcher (Object [(''b'',
           Matcher (Array [Lit (LInt KInt 1), Lit (LInt KInt 2), Lit (LInt KInt 9)]))]))]))
      = Some (ErrMismatch ''$.a.b[2]'' (LInt KInt 9) (JNum (Finite 3)))"
    by (simp add: isMatch_def Object_def Array_def match_def float64_of_int64_exact
          f64_eq_def fmt_d.simps)
next
  assume "expected_keys_match path E1 A \<and> map_of A k = Some v
        \<and> match e (path @ ''.'' @ k) v = Some err"
  then show "Object (E1 @ (k, e) # E2) path (JObj A) = Some err"
    by (simp add: Object_def object_loop_first_failure)
next
  assume a: "length es = length arr \<and> i < length es
        \<and> (\<forall>j<i. match (es ! j) (path @ ''['' @ fmt_d j @ '']'') (arr ! j) = None)
        \<and> match (es ! i) (path @ ''['' @ fmt_d i @ '']'') (arr ! i) = Some err"
  then have "array_loop path arr 0 es = Some err"
    using array_loop_first_failure [of i es path 0 arr err] by simp
  with a show "Array es path (JArr arr) = Some err"
    by (simp add: Array_def)
qed

lemma first_error_is_returned_example:
  \<open>isMatch
      (\<lambda>b. Inr (JObj [(''a'', JObj [(''b'',
                   JArr [JNum (Finite 1), JNum (Finite 2), JNum (Finite 3)])])]))
      (BodyString ''{"a":{"b":[1,2,3]}}'')
      (Matcher (Object [(''a'', Matcher (Object [(''b'',
           Matcher (Array [Lit (LInt KInt 1), Lit (LInt KInt 2), Lit (LInt KInt 9)]))]))]))
     = Some (ErrMismatch ''$.a.b[2]'' (LInt KInt 9) (JNum (Finite 3)))
   \<and> Object [(''x'', Lit (LBool True)), (''y'', Lit (LString ''s''))] ''$.a''
        (JObj [(''y'', JStr ''t''), (''x'', JBool True)])
     = Some (ErrMismatch ''$.a.y'' (LString ''s'') (JStr ''t''))
   \<and> Array [Lit (LBool True), Lit (LString ''s'')] ''$.a'' (JArr [JBool True, JStr ''t''])
     = Some (ErrMismatch ''$.a[1]'' (LString ''s'') (JStr ''t''))\<close>
  using first_error_is_returned
          [of "\<lambda>b. Inr (JObj [(''a'', JObj [(''b'',
                       JArr [JNum (Finite 1), JNum (Finite 2), JNum (Finite 3)])])])"
              \<open>''{"a":{"b":[1,2,3]}}''\<close>
              "''$.a''" "[(''x'', Lit (LBool True))]"
              "[(''y'', JStr ''t''), (''x'', JBool True)]"
              "''y''" "JStr ''t''" "Lit (LString ''s'')"
              "ErrMismatch ''$.a.y'' (LString ''s'') (JStr ''t'')" "[]"
              "[]" "[]" 0]
        first_error_is_returned
          [of "\<lambda>b. Inr (JObj [(''a'', JObj [(''b'',
                       JArr [JNum (Finite 1), JNum (Finite 2), JNum (Finite 3)])])])"
              \<open>''{"a":{"b":[1,2,3]}}''\<close>
              "''$.a''" "[]" "[]" "''y''" "JStr ''t''" "Lit (LString ''s'')"
              "ErrMismatch ''$.a[1]'' (LString ''s'') (JStr ''t'')" "[]"
              "[Lit (LBool True), Lit (LString ''s'')]" "[JBool True, JStr ''t'']" 1]
  by (simp add: expected_keys_match_def match_def fmt_d.simps)

text \<open>
  The number matchers state the path when the value is not a number, and leave it out
  when the number fails their check.
\<close>

lemma number_matchers_value_error_has_no_path:
  "(NumberWithinDelta f64_sub expected delta path (JNum f) = Some err \<longrightarrow>
      error_path err = None)
   \<and> (NumberWithinRange minimum maximum path (JNum f) = Some err \<longrightarrow>
      error_path err = None)
   \<and> (NumberGreater minimum path (JNum f) = Some err \<longrightarrow> error_path err = None)
   \<and> (NumberSmaller maximum path (JNum f) = Some err \<longrightarrow> error_path err = None)
   \<and> (Integer path (JNum f) = Some err \<longrightarrow> error_path err = None)"
  by (auto simp: NumberWithinDelta_def NumberWithinRange_def NumberGreater_def
        NumberSmaller_def Integer_def split: if_splits)

lemma number_matchers_type_error_has_path:
  assumes "\<forall>f. v \<noteq> JNum f"
  shows "NumberWithinDelta f64_sub expected delta path v
      = Some (ErrExpectedNumber path (type_of v))"
    and "NumberWithinRange minimum maximum path v
      = Some (ErrExpectedNumber path (type_of v))"
    and "NumberGreater minimum path v = Some (ErrExpectedNumber path (type_of v))"
    and "NumberSmaller maximum path v = Some (ErrExpectedNumber path (type_of v))"
    and "Integer path v = Some (ErrExpectedNumber path (type_of v))"
  using assms
  by (cases v; simp add: NumberWithinDelta_def NumberWithinRange_def NumberGreater_def
        NumberSmaller_def Integer_def)+

text \<open>
  C5: the paths are built as the claim says and its example reports \<open>$.a.b[2]\<close> (the
  two lemmas above on \<open>Object\<close> and \<open>Array\<close>), but the failure message does not always
  pinpoint the location. With \<open>Positive()\<close> in the place of the \<open>9\<close>, the document
  \<open>{"a":{"b":[1,2,-3]}}\<close> fails with the message of \<open>NumberGreater\<close>, which states no
  path at all, whereas the same matcher on a string at that place reports
  \<open>$.a.b[2]\<close>.
\<close>

theorem number_failure_states_no_path:
  "match
     (Matcher (Object [(''a'', Matcher (Object [(''b'',
        Matcher (Array [Lit (LInt KInt 1), Lit (LInt KInt 2), Matcher Positive]))]))]))
     ''$''
     (JObj [(''a'', JObj [(''b'',
        JArr [JNum (Finite 1), JNum (Finite 2), JNum (Finite (- 3))])])])
   = Some (ErrNotGreater (Finite 0) (Finite (- 3)))
   \<and> error_path (ErrNotGreater (Finite 0) (Finite (- 3)) :: expected merror) = None
   \<and> match
     (Matcher (Object [(''a'', Matcher (Object [(''b'',
        Matcher (Array [Lit (LInt KInt 1), Lit (LInt KInt 2), Matcher Positive]))]))]))
     ''$''
     (JObj [(''a'', JObj [(''b'',
        JArr [JNum (Finite 1), JNum (Finite 2), JStr ''x''])])])
   = Some (ErrExpectedNumber ''$.a.b[2]'' TString)"
  by (simp add: match_def Object_def Array_def Positive_def NumberGreater_def f64_le_def
        f64_eq_def float64_of_int64_exact fmt_d.simps)

section \<open>Deferred errors of \<open>Regexp\<close>\<close>

text \<open>
  C6: \<open>Regexp\<close> has no failing branch at construction: whatever \<open>regexp.Compile\<close>
  returned, it returns a matcher, and for a pattern that does not compile this is the
  string matcher whose one validator always reports the pattern. That matcher fails
  on every string with the error that cites the pattern and the error of the
  compilation; on a value that is not a string it reports the type, as the matcher
  of a valid pattern does.
\<close>

theorem regexp_invalid_pattern_deferred:
  "(Compile p = Inl err \<longrightarrow>
      Regexp Compile MatchString p = stringValue [\<lambda>s. Some (InvalidRegexp p err)]
      \<and> Regexp Compile MatchString p path (JStr s)
          = Some (ErrAt path (InvalidRegexp p err)))
   \<and> ((\<forall>s. v \<noteq> JStr s) \<longrightarrow>
      Regexp Compile MatchString p path v = Some (ErrExpectedString path (type_of v)))"
proof (intro conjI impI)
  assume "Compile p = Inl err"
  then show "Regexp Compile MatchString p = stringValue [\<lambda>s. Some (InvalidRegexp p err)]"
    by (simp add: Regexp_def)
  then show "Regexp Compile MatchString p path (JStr s)
      = Some (ErrAt path (InvalidRegexp p err))"
    by (simp add: stringValue_def)
next
  assume "\<forall>s. v \<noteq> JStr s"
  then show "Regexp Compile MatchString p path v = Some (ErrExpectedString path (type_of v))"
    by (cases v) (simp_all add: Regexp_def stringValue_def)
qed

theorem regexp_invalid_pattern_deferred_witness:
  "Regexp (\<lambda>p. if p = ''a(b'' then Inl ''missing closing )'' else Inr p)
       (\<lambda>re s. re = s) ''a(b'' ''$'' (JStr ''ab'')
     = Some (ErrAt ''$'' (InvalidRegexp ''a(b'' ''missing closing )''))
   \<and> Regexp (\<lambda>p. if p = ''a(b'' then Inl ''missing closing )'' else Inr p)
       (\<lambda>re s. re = s) ''a(b'' ''$'' (JNum (Finite 1))
     = Some (ErrExpectedString ''$'' TFloat64)"
  using regexp_invalid_pattern_deferred
          [of "\<lambda>p. if p = ''a(b'' then Inl ''missing closing )'' else Inr p"
              "''a(b''" "''missing closing )''" "\<lambda>re s. re = s" "''$''" "''ab''"
              "JNum (Finite 1)"]
  by (simp add: stringValue_def)

section \<open>Time ranges\<close>

text \<open>
  C10, as the claim states it, fails when \<open>startTime\<close> is after \<open>endTime\<close>: the parsed
  instant is \<open>startTime\<close> itself, and the matcher fails.
\<close>

theorem time_within_inverted_range_counterexample:
  "sample_rfc3339Parser ''1970-01-01T00:00:10Z'' = Inr 10000000000
   \<and> TimeWithinRange sample_rfc3339Parser 10000000000 5000000000 ''$''
         (JStr ''1970-01-01T00:00:10Z'')
       = Some (ErrAt ''$'' (TimeNotInRange 10000000000 5000000000 10000000000))"
  by (simp add: sample_rfc3339Parser_def TimeWithinRange_def timeValue_def Before_def
        After_def)

text \<open>
  C10 (amended): for a string that parses to the instant \<open>t\<close>, \<open>TimeWithinRange\<close> fails
  exactly when \<open>t\<close> is strictly before \<open>startTime\<close> or strictly after \<open>endTime\<close>; when
  \<open>startTime\<close> is not after \<open>endTime\<close>, it succeeds at both endpoints.
\<close>

theorem time_within_range_inclusive:
  "rfc3339Parser s = Inr t \<longrightarrow>
     (TimeWithinRange rfc3339Parser startTime endTime path (JStr s) = None
        \<longleftrightarrow> startTime \<le> t \<and> t \<le> endTime)
     \<and> (TimeWithinRange rfc3339Parser startTime endTime path (JStr s) \<noteq> None
        \<longleftrightarrow> t < startTime \<or> endTime < t)
     \<and> (startTime \<le> endTime \<and> (t = startTime \<or> t = endTime) \<longrightarrow>
          TimeWithinRange rfc3339Parser startTime endTime path (JStr s) = None)"
  by (auto simp: TimeWithinRange_def timeValue_def Before_def After_def)

theorem time_within_range_inclusive_witness:
  "TimeWithinRange sample_rfc3339Parser 10000000000 20000000000 ''$''
       (JStr ''1970-01-01T00:00:10Z'') = None
   \<and> TimeWithinRange sample_rfc3339Parser 5000000000 10000000000 ''$''
       (JStr ''1970-01-01T00:00:10Z'') = None
   \<and> TimeWithinRange sample_rfc3339Parser 10000000001 20000000000 ''$''
       (JStr ''1970-01-01T00:00:10Z'')
     = Some (ErrAt ''$'' (TimeNotInRange 10000000001 20000000000 10000000000))"
  using time_within_range_inclusive
          [of sample_rfc3339Parser "''1970-01-01T00:00:10Z''" 10000000000
              10000000000 20000000000 "''$''"]
        time_within_range_inclusive
          [of sample_rfc3339Parser "''1970-01-01T00:00:10Z''" 10000000000
              5000000000 10000000000 "''$''"]
        time_within_range_inclusive
          [of sample_rfc3339Parser "''1970-01-01T00:00:10Z''" 10000000000
              10000000001 20000000000 "''$''"]
  by (simp add: sample_rfc3339Parser_def TimeWithinRange_def timeValue_def Before_def
        After_def)

section \<open>Unordered arrays\<close>













end
